theory Spec2Isabelle
  imports Main "HOL-Library.AList"
begin

section \<open>The Astro loader of \<^verbatim>\<open>vite-plugin-astro/index.ts\<close>\<close>

text \<open>
  The plugin's \<^verbatim>\<open>load\<close> hook reads a \<^verbatim>\<open>.astro\<close> file, compiles it with
  \<^verbatim>\<open>@astrojs/compiler\<close>, transpiles the result with esbuild and rewrites the error of a
  compiler panic. The compiler, esbuild, the file system, Node's URL functions and the style
  transform of \<^verbatim>\<open>./styles.js\<close> are outside the file: the model takes them as functions
  of a record \<open>host\<close>, each returning either the value it throws or its result.
\<close>

subsection \<open>JavaScript values\<close>

text \<open>
  The loader is handed values whose TypeScript types are not checked at run time
  (\<^verbatim>\<open>opts\<close>, the result of the style transform, the caught \<^verbatim>\<open>err: any\<close>), so they
  are modelled as untyped JavaScript values. An object is the list of the properties a read
  finds on it (its own and those of its class), the first binding of a name winning; an
  \<^verbatim>\<open>Error\<close> instance is such an object with \<^verbatim>\<open>message\<close> and \<^verbatim>\<open>stack\<close>. A function
  value is known by the completion of the one call the loader can make of it. Numbers are
  the integers and \<^verbatim>\<open>NaN\<close>: the loader only tests them for truthiness. Arrays and
  functions carry no named properties of their own. Whether a property can be assigned is
  not part of the value: the host tells (see \<open>set_prop\<close>). Properties whose getter or
  setter runs code of its own, and proxies, are not modelled.
\<close>

datatype js_value =
    JSUndefined
  | JSNull
  | JSBoolean bool
  | JSNumber int
  | JSNaN
  | JSBigInt int
  | JSSymbol string
  | JSString string
  | JSArray "js_value list"
  | JSObject "(string \<times> js_value) list"
  | JSFunction js_completion
and js_completion =
    Return js_value
  | Throw js_value
  | ThrowTypeError

text \<open>
  What a computation throws: a value thrown by the program or by a collaborator, or a
  \<^verbatim>\<open>TypeError\<close> that the engine raises itself (a property read on \<^verbatim>\<open>null\<close> or
  \<^verbatim>\<open>undefined\<close>, a call of something that is no function, an assignment to a property of
  a primitive in strict mode). The message and stack of such an engine error are not
  modelled.
\<close>

datatype js_error = TypeError | Thrown js_value

fun typeof :: "js_value \<Rightarrow> string" where
  "typeof JSUndefined = ''undefined''"
| "typeof JSNull = ''object''"
| "typeof (JSBoolean b) = ''boolean''"
| "typeof (JSNumber n) = ''number''"
| "typeof JSNaN = ''number''"
| "typeof (JSBigInt n) = ''bigint''"
| "typeof (JSSymbol d) = ''symbol''"
| "typeof (JSString s) = ''string''"
| "typeof (JSArray xs) = ''object''"
| "typeof (JSObject ps) = ''object''"
| "typeof (JSFunction c) = ''function''"

text \<open>\<^verbatim>\<open>ToBoolean\<close>: the truthiness that \<^verbatim>\<open>if\<close>, \<^verbatim>\<open>!\<close> and \<^verbatim>\<open>||\<close> test.\<close>

fun truthy :: "js_value \<Rightarrow> bool" where
  "truthy JSUndefined = False"
| "truthy JSNull = False"
| "truthy (JSBoolean b) = b"
| "truthy (JSNumber n) = (n \<noteq> 0)"
| "truthy JSNaN = False"
| "truthy (JSBigInt n) = (n \<noteq> 0)"
| "truthy (JSSymbol d) = True"
| "truthy (JSString s) = (s \<noteq> [])"
| "truthy (JSArray xs) = True"
| "truthy (JSObject ps) = True"
| "truthy (JSFunction c) = True"

text \<open>
  The property read \<^verbatim>\<open>v.name\<close>, for the names the loader reads as values
  (\<^verbatim>\<open>ssr\<close>, \<^verbatim>\<open>stack\<close>, \<^verbatim>\<open>map\<close>, \<^verbatim>\<open>mappings\<close>, \<^verbatim>\<open>code\<close>). Of these only
  \<^verbatim>\<open>map\<close> is found on a built-in prototype: on an array it is \<^verbatim>\<open>Array.prototype.map\<close>,
  a function that raises a \<^verbatim>\<open>TypeError\<close> when called without a callback.
\<close>

fun get_prop :: "js_value \<Rightarrow> string \<Rightarrow> js_error + js_value" where
  "get_prop JSUndefined name = Inl TypeError"
| "get_prop JSNull name = Inl TypeError"
| "get_prop (JSObject ps) name =
     Inr (case map_of ps name of Some v \<Rightarrow> v | None \<Rightarrow> JSUndefined)"
| "get_prop (JSArray xs) name =
     Inr (if name = ''map'' then JSFunction ThrowTypeError else JSUndefined)"
| "get_prop v name = Inr JSUndefined"

text \<open>
  The assignment \<^verbatim>\<open>v.name = x\<close> in strict code, which a module is. On \<^verbatim>\<open>null\<close>,
  \<^verbatim>\<open>undefined\<close> and the primitives it raises a \<^verbatim>\<open>TypeError\<close>. On an object it adds or
  replaces the property, unless the object does not allow it: the property is read-only or
  has a getter and no setter, or it is absent and the object is not extensible (sealed or
  frozen); then the assignment raises a \<^verbatim>\<open>TypeError\<close>. These attributes are not held in
  the property list, so the first argument tells, for the object and the name, whether the
  assignment is allowed. The loader assigns to objects only (lemma \<open>marked_error_object\<close>),
  so the assignment to an array or a function, which the model gives no named properties,
  is never evaluated.
\<close>

fun set_prop ::
    "(js_value \<Rightarrow> string \<Rightarrow> bool) \<Rightarrow> js_value \<Rightarrow> string \<Rightarrow> js_value \<Rightarrow> js_error + js_value" where
  "set_prop allowed (JSObject ps) name x =
     (if allowed (JSObject ps) name then Inr (JSObject (AList.update name x ps))
      else Inl TypeError)"
| "set_prop allowed v name x = Inl TypeError"

fun complete :: "js_completion \<Rightarrow> js_error + js_value" where
  "complete (Return v) = Inr v"
| "complete (Throw v) = Inl (Thrown v)"
| "complete ThrowTypeError = Inl TypeError"

subsection \<open>Strings\<close>

text \<open>
  A string is the list of its bytes in UTF-8. The patterns the loader searches for are
  ASCII or whole paths, for which searching the bytes and searching the UTF-16 code units
  of a well-formed string agree.
\<close>

definition startsWith :: "string \<Rightarrow> string \<Rightarrow> bool" where
  "startsWith s p = (take (length p) s = p)"

definition endsWith :: "string \<Rightarrow> string \<Rightarrow> bool" where
  "endsWith s p = (length p \<le> length s \<and> drop (length s - length p) s = p)"

fun includes_str :: "string \<Rightarrow> string \<Rightarrow> bool" where
  "includes_str [] p = (p = [])"
| "includes_str (c # cs) p = (startsWith (c # cs) p \<or> includes_str cs p)"

text \<open>
  \<^verbatim>\<open>s.replace(p, r)\<close> with a string pattern: the first occurrence of \<open>p\<close> is replaced.
  The loader's replacement is the empty string, so the \<^verbatim>\<open>$\<close> patterns of a replacement
  play no part.
\<close>

fun replace :: "string \<Rightarrow> string \<Rightarrow> string \<Rightarrow> string" where
  "replace [] p r = (if p = [] then r else [])"
| "replace (c # cs) p r =
     (if startsWith (c # cs) p then r @ drop (length p) (c # cs) else c # replace cs p r)"

text \<open>
  \<^verbatim>\<open>String.prototype.toLowerCase\<close> follows the Unicode default case conversion. That
  gives an ASCII character one lower-case form whatever surrounds it, so the characters
  before the first one outside ASCII are lower-cased one by one: \<^verbatim>\<open>A\<close> to \<^verbatim>\<open>Z\<close> become
  \<^verbatim>\<open>a\<close> to \<^verbatim>\<open>z\<close>, the others are kept. The rest of the string, from its first byte
  outside ASCII on, is lower-cased by the engine's Unicode tables, which may change its
  length and which depend on the characters before (the final sigma). The model takes them
  as the parameter \<open>unicode\<close>: given the ASCII prefix and the rest, it returns the
  lower-cased rest as its first byte and the bytes after it, since no character lower-cases
  to nothing.
\<close>

definition is_ascii :: "char \<Rightarrow> bool" where
  "is_ascii c = ((of_char c :: nat) < 128)"

definition lower_ascii :: "char \<Rightarrow> char" where
  "lower_ascii c =
     (if (65::nat) \<le> of_char c \<and> of_char c \<le> (90::nat) then char_of (of_char c + (32::nat))
      else c)"

definition toLowerCase :: "(string \<Rightarrow> string \<Rightarrow> char \<times> string) \<Rightarrow> string \<Rightarrow> string" where
  "toLowerCase unicode s =
     (let ascii = takeWhile is_ascii s; rest = dropWhile is_ascii s
      in map lower_ascii ascii
         @ (if rest = [] then [] else (case unicode ascii rest of (c, cs) \<Rightarrow> c # cs)))"

text \<open>
  The method call \<^verbatim>\<open>v.name(args)\<close>, for the two calls the loader makes:
  \<^verbatim>\<open>includes\<close> with one string, and \<^verbatim>\<open>toString\<close> with no argument. A property of
  the object itself is called when it is a function, and the call raises a \<^verbatim>\<open>TypeError\<close>
  when it is anything else. Otherwise the method comes from a prototype:
  \<^verbatim>\<open>String.prototype.includes\<close> on a string, \<^verbatim>\<open>Array.prototype.includes\<close> on an array
  (which compares with \<^verbatim>\<open>SameValueZero\<close>: equality, for a string) and
  \<^verbatim>\<open>Object.prototype.toString\<close> on an object; no other prototype has an
  \<^verbatim>\<open>includes\<close>. The loader calls \<^verbatim>\<open>toString\<close> on objects only (lemma
  \<open>style_map_toString_object\<close>).
\<close>

fun call_method :: "js_value \<Rightarrow> string \<Rightarrow> js_value list \<Rightarrow> js_error + js_value" where
  "call_method JSUndefined name args = Inl TypeError"
| "call_method JSNull name args = Inl TypeError"
| "call_method (JSObject ps) name args =
     (case map_of ps name of
        Some (JSFunction c) \<Rightarrow> complete c
      | Some v \<Rightarrow> Inl TypeError
      | None \<Rightarrow>
          if name = ''toString'' then Inr (JSString ''[object Object]'') else Inl TypeError)"
| "call_method (JSString s) name args =
     (case args of
        [JSString p] \<Rightarrow>
          if name = ''includes'' then Inr (JSBoolean (includes_str s p)) else Inl TypeError
      | _ \<Rightarrow> Inl TypeError)"
| "call_method (JSArray xs) name args =
     (case args of
        [JSString p] \<Rightarrow>
          if name = ''includes'' then Inr (JSBoolean (JSString p \<in> set xs)) else Inl TypeError
      | _ \<Rightarrow> Inl TypeError)"
| "call_method v name args = Inl TypeError"

subsection \<open>\<^verbatim>\<open>isSSR\<close> (lines 20 to 31)\<close>

fun isSSR :: "js_value \<Rightarrow> js_error + bool" where
  "isSSR JSUndefined = Inr False"
| "isSSR (JSBoolean b) = Inr b"
| "isSSR options =
     (if typeof options = ''object''
      then (case get_prop options ''ssr'' of Inl e \<Rightarrow> Inl e | Inr v \<Rightarrow> Inr (truthy v))
      else Inr False)"

subsection \<open>\<^verbatim>\<open>URLSearchParams\<close>\<close>

text \<open>
  \<^verbatim>\<open>URLSearchParams.prototype.toString\<close> is the \<^verbatim>\<open>application/x-www-form-urlencoded\<close>
  serializer of the URL standard: of the UTF-8 bytes of a name or value, the ASCII letters
  and digits and \<^verbatim>\<open>*\<close>, \<^verbatim>\<open>-\<close>, \<^verbatim>\<open>.\<close>, \<^verbatim>\<open>_\<close> are kept, a space becomes \<^verbatim>\<open>+\<close>,
  and every other byte becomes \<^verbatim>\<open>%\<close> and two upper-case hexadecimal digits; the pairs are
  joined by \<^verbatim>\<open>=\<close> and \<^verbatim>\<open>&\<close>.
\<close>

definition unreserved :: "char \<Rightarrow> bool" where
  "unreserved c =
     (let n = (of_char c :: nat)
      in n = 42 \<or> n = 45 \<or> n = 46 \<or> n = 95
         \<or> (48 \<le> n \<and> n \<le> 57) \<or> (65 \<le> n \<and> n \<le> 90) \<or> (97 \<le> n \<and> n \<le> 122))"

definition hex_digit :: "nat \<Rightarrow> char" where
  "hex_digit n = (if n < 10 then char_of (48 + n) else char_of (55 + n))"

definition encode_byte :: "char \<Rightarrow> string" where
  "encode_byte c =
     (if c = CHR '' '' then ''+''
      else if unreserved c then [c]
      else [CHR ''%'', hex_digit (of_char c div 16), hex_digit (of_char c mod 16)])"

definition urlencode :: "string \<Rightarrow> string" where
  "urlencode s = concat (map encode_byte s)"

fun URLSearchParams_toString :: "(string \<times> string) list \<Rightarrow> string" where
  "URLSearchParams_toString [] = []"
| "URLSearchParams_toString [(k, v)] = urlencode k @ ''='' @ urlencode v"
| "URLSearchParams_toString ((k, v) # rest) =
     urlencode k @ ''='' @ urlencode v @ ''&'' @ URLSearchParams_toString rest"

subsection \<open>Configuration, collaborators and effects\<close>

text \<open>A \<^verbatim>\<open>URL\<close> object is known by its \<^verbatim>\<open>href\<close>, which is also its \<^verbatim>\<open>toString()\<close>.\<close>

datatype url = URL (href: string)

text \<open>
  The fields of \<^verbatim>\<open>AstroConfig\<close> that the loader reads; \<open>site\<close> is
  \<^verbatim>\<open>config.buildOptions.site\<close>.
\<close>

record AstroConfig =
  pages :: url
  layouts :: url
  projectRoot :: url
  site :: "string option"

datatype mode = Document | Fragment

text \<open>The options of the compiler call (lines 61 to 66) and of the esbuild call (line 87).\<close>

record TransformOptions =
  opt_as :: mode
  opt_projectRoot :: string
  opt_site :: "string option"
  opt_sourcefile :: string
  opt_sourcemap :: string
  opt_internalURL :: string

record esbuild_options =
  es_loader :: string
  es_sourcemap :: string
  es_sourcefile :: string

text \<open>
  The \<^verbatim>\<open>{code, map}\<close> that the compiler returns, that esbuild returns and that \<^verbatim>\<open>load\<close>
  returns.
\<close>

record TransformResult =
  code :: string
  map' :: string

text \<open>The argument of \<^verbatim>\<open>transformWithVite\<close> (line 69), without the host's transform hook.\<close>

record style_request =
  tw_value :: string
  tw_lang :: string
  tw_id :: string
  tw_ssr :: bool

text \<open>
  The attributes of a style block, \<^verbatim>\<open>Record<string, string>\<close>; \<open>None\<close> is a nullish
  \<^verbatim>\<open>attrs\<close>, which line 68 allows for with \<^verbatim>\<open>?.\<close>.
\<close>

type_synonym attrs = "(string \<rightharpoonup> string) option"

text \<open>
  The collaborators. Each returns \<open>Inl\<close> of the value it throws (or rejects with) or
  \<open>Inr\<close> of its result. \<open>transform\<close> is the compiler: it is given the source, the options
  and the style callback. The last two fields are the engine's: whether an object allows
  the assignment of a property (see \<open>set_prop\<close>), and its Unicode lower-casing (see
  \<open>toLowerCase\<close>).
\<close>

record host =
  newURL :: "string \<Rightarrow> js_value + url"
  fileURLToPath :: "url \<Rightarrow> js_value + string"
  readFile :: "string \<Rightarrow> js_value + string"
  transform ::
    "string \<Rightarrow> TransformOptions \<Rightarrow> (string \<Rightarrow> attrs \<Rightarrow> js_error + js_value)
      \<Rightarrow> js_value + TransformResult"
  esbuild_transform :: "string \<Rightarrow> esbuild_options \<Rightarrow> js_value + TransformResult"
  transformWithVite :: "style_request \<Rightarrow> js_value + js_value"
  assignable :: "js_value \<Rightarrow> string \<Rightarrow> bool"
  unicodeLower :: "string \<Rightarrow> string \<Rightarrow> char \<times> string"

text \<open>The calls that \<^verbatim>\<open>load\<close> makes of the file system, the compiler and esbuild, in order.\<close>

datatype event =
    ReadFile string
  | Compile string TransformOptions
  | Transpile string esbuild_options

subsection \<open>The style callback \<^verbatim>\<open>preprocessStyle\<close> (lines 67 to 83)\<close>

text \<open>Line 68: \<^verbatim>\<open>`.${attrs?.lang || 'css'}`.toLowerCase()\<close>.\<close>

definition style_lang :: "host \<Rightarrow> attrs \<Rightarrow> string" where
  "style_lang h attrs =
     toLowerCase (unicodeLower h) (''.'' @
       (case attrs of
          None \<Rightarrow> ''css''
        | Some a \<Rightarrow> (case a ''lang'' of None \<Rightarrow> ''css'' | Some l \<Rightarrow> if l = [] then ''css'' else l)))"

text \<open>Lines 74 to 81: the value of \<^verbatim>\<open>map\<close> computed from \<^verbatim>\<open>result.map\<close>.\<close>

definition style_map :: "js_value \<Rightarrow> js_error + js_value" where
  "style_map m =
     (if truthy m then
        if typeof m = ''string'' then Inr m
        else (case get_prop m ''mappings'' of
                Inl e \<Rightarrow> Inl e
              | Inr mappings \<Rightarrow>
                  if truthy mappings then call_method m ''toString'' [] else Inr JSUndefined)
      else Inr JSUndefined)"

definition preprocessStyle ::
    "host \<Rightarrow> string \<Rightarrow> js_value \<Rightarrow> string \<Rightarrow> attrs \<Rightarrow> js_error + js_value" where
  "preprocessStyle h file_id opts val attrs =
     (case isSSR opts of
        Inl e \<Rightarrow> Inl e
      | Inr ssr \<Rightarrow>
          (case transformWithVite h
                  \<lparr>tw_value = val, tw_lang = style_lang h attrs, tw_id = file_id, tw_ssr = ssr\<rparr> of
             Inl e \<Rightarrow> Inl (Thrown e)
           | Inr result \<Rightarrow>
               if \<not> truthy result then Inr result
               else (case get_prop result ''map'' of
                       Inl e \<Rightarrow> Inl e
                     | Inr m \<Rightarrow>
                         (case style_map m of
                            Inl e \<Rightarrow> Inl e
                          | Inr mp \<Rightarrow>
                              (case get_prop result ''code'' of
                                 Inl e \<Rightarrow> Inl e
                               | Inr c \<Rightarrow> Inr (JSObject [(''code'', c), (''map'', mp)]))))))"

subsection \<open>The catch handler (lines 93 to 120)\<close>

definition nl :: string where
  "nl = [CHR 0x0A]"

definition issue_title :: string where
  "issue_title = [CHR 0xF0, CHR 0x9F, CHR 0x90, CHR 0x9B] @ '' BUG: `@astrojs/compiler` panic''"

definition issue_body :: "string \<Rightarrow> string \<Rightarrow> string" where
  "issue_body rel source =
     ''### Describe the Bug'' @ nl @ nl
     @ ''`@astrojs/compiler` encountered an unrecoverable error when compiling the following file.''
     @ nl @ nl
     @ ''**'' @ rel @ ''**'' @ nl
     @ ''```astro'' @ nl
     @ source @ nl
     @ ''```'' @ nl"

definition issue_url :: "string \<Rightarrow> string \<Rightarrow> string \<Rightarrow> string" where
  "issue_url file_id root source =
     ''https://github.com/withastro/astro/issues/new?''
     @ URLSearchParams_toString
         [(''labels'', ''compiler''),
          (''title'', issue_title),
          (''body'', issue_body (replace file_id root []) source)]"

definition panic_message :: "string \<Rightarrow> string" where
  "panic_message u =
     ''Error: Uh oh, the Astro compiler encountered an unrecoverable error!'' @ nl @ nl
     @ ''Please open'' @ nl
     @ ''a GitHub issue using the link below:'' @ nl
     @ u"

text \<open>
  The handler ends in \<^verbatim>\<open>throw err\<close>, so it has no normal completion: its result is what
  it throws. The message reads back \<^verbatim>\<open>err.url\<close>, the string just assigned.
\<close>

definition catch_handler ::
    "host \<Rightarrow> AstroConfig \<Rightarrow> string \<Rightarrow> string \<Rightarrow> js_value \<Rightarrow> js_error" where
  "catch_handler h config file_id source err =
     (case get_prop err ''stack'' of
        Inl e \<Rightarrow> e
      | Inr stack \<Rightarrow>
          (case call_method stack ''includes'' [JSString ''wasm-function''] of
             Inl e \<Rightarrow> e
           | Inr found \<Rightarrow>
               if truthy found then
                 (case fileURLToPath h (projectRoot config) of
                    Inl e \<Rightarrow> Thrown e
                  | Inr root \<Rightarrow>
                      (let u = issue_url file_id root source
                       in case set_prop (assignable h) err ''url'' (JSString u) of
                            Inl e \<Rightarrow> e
                          | Inr err1 \<Rightarrow>
                              (case set_prop (assignable h) err1 ''message''
                                      (JSString (panic_message u)) of
                                 Inl e \<Rightarrow> e
                               | Inr err2 \<Rightarrow>
                                   (case set_prop (assignable h) err2 ''stack''
                                           (JSString (''    at '' @ file_id)) of
                                      Inl e \<Rightarrow> e
                                    | Inr err3 \<Rightarrow> Thrown err3))))
               else Thrown err))"

subsection \<open>\<^verbatim>\<open>load\<close> (lines 45 to 121)\<close>

text \<open>Lines 51 and 52; \<^verbatim>\<open>||\<close> does not evaluate its right operand when the left is true.\<close>

definition isPage :: "host \<Rightarrow> AstroConfig \<Rightarrow> string \<Rightarrow> js_value + bool" where
  "isPage h config file_id =
     (case newURL h (''file://'' @ file_id) of
        Inl e \<Rightarrow> Inl e
      | Inr u \<Rightarrow>
          (case fileURLToPath h u of
             Inl e \<Rightarrow> Inl e
           | Inr normalizedID \<Rightarrow>
               (case fileURLToPath h (pages config) of
                  Inl e \<Rightarrow> Inl e
                | Inr p \<Rightarrow>
                    if startsWith normalizedID p then Inr True
                    else (case fileURLToPath h (layouts config) of
                            Inl e \<Rightarrow> Inl e
                          | Inr l \<Rightarrow> Inr (startsWith normalizedID l)))))"

definition compile_options :: "AstroConfig \<Rightarrow> string \<Rightarrow> bool \<Rightarrow> TransformOptions" where
  "compile_options config file_id is_page =
     \<lparr>opt_as = (if is_page then Document else Fragment),
      opt_projectRoot = href (projectRoot config),
      opt_site = site config,
      opt_sourcefile = file_id,
      opt_sourcemap = ''both'',
      opt_internalURL = ''astro/internal''\<rparr>"

definition transpile_options :: "string \<Rightarrow> esbuild_options" where
  "transpile_options file_id =
     \<lparr>es_loader = ''ts'', es_sourcemap = ''external'', es_sourcefile = file_id\<rparr>"

text \<open>
  \<^verbatim>\<open>load\<close> returns the calls it has made and either what it throws or its result, where
  \<open>None\<close> is \<^verbatim>\<open>null\<close>.
\<close>

definition load ::
    "host \<Rightarrow> AstroConfig \<Rightarrow> string \<Rightarrow> js_value
      \<Rightarrow> event list \<times> (js_error + TransformResult option)" where
  "load h config file_id opts =
     (if \<not> endsWith file_id ''.astro'' then ([], Inr None)
      else
        (case isPage h config file_id of
           Inl e \<Rightarrow> ([], Inl (Thrown e))
         | Inr is_page \<Rightarrow>
             (case readFile h file_id of
                Inl e \<Rightarrow> ([ReadFile file_id], Inl (Thrown e))
              | Inr source \<Rightarrow>
                  (let topts = compile_options config file_id is_page
                   in case transform h source topts (preprocessStyle h file_id opts) of
                        Inl err \<Rightarrow>
                          ([ReadFile file_id, Compile source topts],
                           Inl (catch_handler h config file_id source err))
                      | Inr tsResult \<Rightarrow>
                          (let eopts = transpile_options file_id
                           in case esbuild_transform h (code tsResult) eopts of
                                Inl err \<Rightarrow>
                                  ([ReadFile file_id, Compile source topts,
                                    Transpile (code tsResult) eopts],
                                   Inl (catch_handler h config file_id source err))
                              | Inr r \<Rightarrow>
                                  ([ReadFile file_id, Compile source topts,
                                    Transpile (code tsResult) eopts],
                                   Inr (Some \<lparr>code = code r, map' = map' r\<rparr>)))))))"

subsection \<open>Example inputs\<close>

text \<open>
  A project under \<^verbatim>\<open>/proj/\<close>, and a host whose file system, compiler, esbuild and style
  transform answer every call with the given outcome; its \<open>fileURLToPath\<close> strips the
  \<^verbatim>\<open>file://\<close> of a file URL and throws on any other URL. Its objects allow every
  assignment, and of the text outside ASCII it lower-cases a capital A with diaeresis
  followed by \<^verbatim>\<open>B\<close> (the bytes \<^verbatim>\<open>C3 84 42\<close>) to the small letters (\<^verbatim>\<open>C3 A4 62\<close>)
  and keeps the rest.
\<close>

definition example_unicode :: "string \<Rightarrow> string \<Rightarrow> char \<times> string" where
  "example_unicode ascii rest =
     (if rest = [CHR 0xC3, CHR 0x84, CHR ''B''] then (CHR 0xC3, [CHR 0xA4, CHR ''b''])
      else (case rest of [] \<Rightarrow> (CHR ''?'', []) | c # cs \<Rightarrow> (c, cs)))"

definition example_config :: AstroConfig where
  "example_config =
     \<lparr>pages = URL ''file:///proj/src/pages/'',
      layouts = URL ''file:///proj/src/layouts/'',
      projectRoot = URL ''file:///proj/'',
      site = None\<rparr>"

definition example_host ::
    "js_value + string \<Rightarrow> js_value + TransformResult \<Rightarrow> js_value + TransformResult
      \<Rightarrow> js_value + js_value \<Rightarrow> host" where
  "example_host rd tr es st =
     \<lparr>newURL = (\<lambda>s. Inr (URL s)),
      fileURLToPath =
        (\<lambda>u. if startsWith (href u) ''file://'' then Inr (drop 7 (href u))
             else Inl (JSObject [(''code'', JSString ''ERR_INVALID_URL_SCHEME'')])),
      readFile = (\<lambda>path. rd),
      transform = (\<lambda>source topts callback. tr),
      esbuild_transform = (\<lambda>c eopts. es),
      transformWithVite = (\<lambda>request. st),
      assignable = (\<lambda>obj name. True),
      unicodeLower = example_unicode\<rparr>"

definition example_output :: TransformResult where
  "example_output = \<lparr>code = ''export default 1;'', map' = ''{}''\<rparr>"


text \<open>
  Thrown values: an error of a compiler panic, whose stack names a WebAssembly frame; an
  ordinary error; a failed read and a failed transpilation of a file whose name contains
  \<^verbatim>\<open>wasm-function\<close>, which Node and esbuild quote in the message that heads the stack;
  an error object without a \<^verbatim>\<open>stack\<close>; and an object whose \<^verbatim>\<open>stack\<close> is an array.
\<close>

definition panic_error :: js_value where
  "panic_error =
     JSObject
       [(''message'', JSString ''unreachable''),
        (''stack'', JSString ''RuntimeError: unreachable at wasm-function[1011]:0x3f2a'')]"

definition plain_error :: js_value where
  "plain_error =
     JSObject
       [(''message'', JSString ''Unexpected token''),
        (''stack'', JSString ''Error: Unexpected token at transform'')]"

definition read_error :: js_value where
  "read_error =
     JSObject
       [(''code'', JSString ''ENOENT''),
        (''message'',
         JSString ''ENOENT: no such file or directory, open /proj/src/wasm-function.astro''),
        (''stack'',
         JSString ''Error: ENOENT: no such file or directory, open /proj/src/wasm-function.astro'')]"

definition transpile_error :: js_value where
  "transpile_error =
     JSObject
       [(''message'',
         JSString ''Transform failed with 1 error: /proj/src/wasm-function.astro:1:0: Unexpected token''),
        (''stack'',
         JSString ''Error: Transform failed with 1 error: /proj/src/wasm-function.astro:1:0: Unexpected token'')]"

definition stackless_error :: js_value where
  "stackless_error = JSObject [(''message'', JSString ''boom'')]"

definition array_stack_error :: js_value where
  "array_stack_error = JSObject [(''message'', JSString ''boom''), (''stack'', JSArray [])]"

text \<open>
  Results of the style transform: one whose map is an object that serializes to \<^verbatim>\<open>X\<close>,
  and one whose map is the empty string.
\<close>

definition mapped_style :: js_value where
  "mapped_style =
     JSObject
       [(''code'', JSString ''a{}''),
        (''map'',
         JSObject [(''mappings'', JSString ''AAA''),
                   (''toString'', JSFunction (Return (JSString ''X'')))])]"

definition empty_map_style :: js_value where
  "empty_map_style = JSObject [(''code'', JSString ''a{}''), (''map'', JSString [])]"

subsection \<open>Properties used in the statements\<close>

text \<open>The value of a property in a property list, \<^verbatim>\<open>undefined\<close> when it is absent.\<close>

definition field :: "(string \<times> js_value) list \<Rightarrow> string \<Rightarrow> js_value" where
  "field ps name = (case map_of ps name of Some v \<Rightarrow> v | None \<Rightarrow> JSUndefined)"

text \<open>
  \<open>err\<close> is thrown inside the \<^verbatim>\<open>try\<close> block of \<^verbatim>\<open>load\<close> (lines 56 to 92): by the
  compiler, or by esbuild on the code that the compiler returned.
\<close>

definition thrown_in_try ::
    "host \<Rightarrow> AstroConfig \<Rightarrow> string \<Rightarrow> js_value \<Rightarrow> bool \<Rightarrow> string \<Rightarrow> js_value \<Rightarrow> bool" where
  "thrown_in_try h config file_id opts is_page source err =
     (case transform h source (compile_options config file_id is_page)
             (preprocessStyle h file_id opts) of
        Inl e \<Rightarrow> e = err
      | Inr ts \<Rightarrow> esbuild_transform h (code ts) (transpile_options file_id) = Inl err)"

text \<open>
  A value on which \<^verbatim>\<open>.includes(...)\<close> is a call of a function: a string, an array, or an
  object with a function as its \<^verbatim>\<open>includes\<close> property.
\<close>

fun has_includes :: "js_value \<Rightarrow> bool" where
  "has_includes (JSString s) = True"
| "has_includes (JSArray xs) = True"
| "has_includes (JSObject ps) =
     (case map_of ps ''includes'' of Some (JSFunction c) \<Rightarrow> True | _ \<Rightarrow> False)"
| "has_includes v = False"

text \<open>The \<^verbatim>\<open>stack\<close> of a thrown value can be read and has such an \<^verbatim>\<open>includes\<close>.\<close>

definition stack_has_includes :: "js_value \<Rightarrow> bool" where
  "stack_has_includes err =
     (case get_prop err ''stack'' of Inl e \<Rightarrow> False | Inr stack \<Rightarrow> has_includes stack)"

section \<open>Theorems\<close>

subsection \<open>Strings\<close>

lemma startsWith_iff: "startsWith s p \<longleftrightarrow> (\<exists>t. s = p @ t)"
  unfolding startsWith_def
  by (metis append_eq_conv_conj append_take_drop_id)

lemma includes_str_iff: "includes_str s p \<longleftrightarrow> (\<exists>a b. s = a @ p @ b)"
proof (induction s)
  case Nil
  then show ?case by auto
next
  case (Cons c cs)
  show ?case
  proof
    assume "includes_str (c # cs) p"
    then consider "startsWith (c # cs) p" | "includes_str cs p" by auto
    then show "\<exists>a b. c # cs = a @ p @ b"
    proof cases
      case 1
      then obtain t where "c # cs = p @ t" by (auto simp: startsWith_iff)
      then have "c # cs = [] @ p @ t" by simp
      then show ?thesis by blast
    next
      case 2
      then obtain a b where "cs = a @ p @ b" using Cons.IH by blast
      then have "c # cs = (c # a) @ p @ b" by simp
      then show ?thesis by blast
    qed
  next
    assume "\<exists>a b. c # cs = a @ p @ b"
    then obtain a b where ab: "c # cs = a @ p @ b" by blast
    show "includes_str (c # cs) p"
    proof (cases a)
      case Nil
      with ab have "startsWith (c # cs) p" by (auto simp: startsWith_iff)
      then show ?thesis by simp
    next
      case (Cons a0 as)
      with ab have "cs = as @ p @ b" by simp
      then have "includes_str cs p" using Cons.IH by blast
      then show ?thesis by simp
    qed
  qed
qed

lemma toLowerCase_ascii:
  assumes "\<forall>c\<in>set s. is_ascii c"
  shows "toLowerCase unicode s = map lower_ascii s"
proof -
  have tw: "takeWhile is_ascii s = s" and dw: "dropWhile is_ascii s = []"
    using assms by simp_all
  show ?thesis
    unfolding toLowerCase_def Let_def tw dw by simp
qed

lemma is_ascii_dot: "is_ascii CHR ''.''"
  by (simp add: is_ascii_def)

lemma lower_ascii_dot: "lower_ascii CHR ''.'' = CHR ''.''"
  by (simp add: lower_ascii_def)

lemma toLowerCase_dot:
  "\<exists>r. toLowerCase unicode (''.'' @ t) = ''.'' @ r \<and> (t \<noteq> [] \<longrightarrow> r \<noteq> [])"
proof (cases "dropWhile is_ascii t = []")
  case True
  then have "toLowerCase unicode (''.'' @ t) = ''.'' @ map lower_ascii (takeWhile is_ascii t)"
    by (simp add: toLowerCase_def is_ascii_dot lower_ascii_dot)
  moreover have "takeWhile is_ascii t = t"
    using True by (metis append_Nil2 takeWhile_dropWhile_id)
  ultimately show ?thesis
    by auto
next
  case False
  obtain c cs where u: "unicode (''.'' @ takeWhile is_ascii t) (dropWhile is_ascii t) = (c, cs)"
    by (cases "unicode (''.'' @ takeWhile is_ascii t) (dropWhile is_ascii t)")
  have "toLowerCase unicode (''.'' @ t)
          = ''.'' @ (map lower_ascii (takeWhile is_ascii t) @ c # cs)"
    using False u by (simp add: toLowerCase_def is_ascii_dot lower_ascii_dot)
  then show ?thesis
    by blast
qed

lemma lower_ascii_not_upper:
  "is_ascii c \<Longrightarrow> \<not> (65 \<le> (of_char (lower_ascii c) :: nat) \<and> (of_char (lower_ascii c) :: nat) \<le> 90)"
  by (auto simp: lower_ascii_def is_ascii_def)

lemma lower_css: "map lower_ascii ''css'' = ''css''"
  by (simp add: lower_ascii_def)

lemma style_lang_default:
  "attrs = None \<or> (\<exists>a. attrs = Some a \<and> (a ''lang'' = None \<or> a ''lang'' = Some []))
     \<Longrightarrow> style_lang h attrs = ''.css''"
proof -
  assume "attrs = None \<or> (\<exists>a. attrs = Some a \<and> (a ''lang'' = None \<or> a ''lang'' = Some []))"
  then have "style_lang h attrs = toLowerCase (unicodeLower h) ''.css''"
    by (auto simp: style_lang_def)
  moreover have "\<forall>c\<in>set ''.css''. is_ascii c"
    by (simp add: is_ascii_def)
  then have "toLowerCase (unicodeLower h) ''.css'' = map lower_ascii ''.css''"
    by (rule toLowerCase_ascii)
  moreover have "map lower_ascii ''.css'' = ''.css''"
    by (simp add: lower_ascii_def)
  ultimately show ?thesis
    by simp
qed

lemma style_lang_given:
  assumes "a ''lang'' = Some l" and "l \<noteq> []"
  shows "style_lang h (Some a) = toLowerCase (unicodeLower h) (''.'' @ l)"
  using assms by (simp add: style_lang_def)

lemma style_lang_dot: "\<exists>r. style_lang h attrs = ''.'' @ r \<and> r \<noteq> []"
proof -
  obtain x where x: "style_lang h attrs = toLowerCase (unicodeLower h) (''.'' @ x)" and "x \<noteq> []"
    by (cases attrs) (auto simp: style_lang_def split: option.splits)
  then show ?thesis
    using toLowerCase_dot [of "unicodeLower h" x] by auto
qed

subsection \<open>The steps of \<^verbatim>\<open>load\<close>\<close>


lemma load_run:
  assumes "endsWith file_id ''.astro''"
    and "isPage h config file_id = Inr b"
    and "readFile h file_id = Inr source"
  shows "load h config file_id opts =
     (case transform h source (compile_options config file_id b) (preprocessStyle h file_id opts) of
        Inl err \<Rightarrow>
          ([ReadFile file_id, Compile source (compile_options config file_id b)],
           Inl (catch_handler h config file_id source err))
      | Inr ts \<Rightarrow>
          (case esbuild_transform h (code ts) (transpile_options file_id) of
             Inl err \<Rightarrow>
               ([ReadFile file_id, Compile source (compile_options config file_id b),
                 Transpile (code ts) (transpile_options file_id)],
                Inl (catch_handler h config file_id source err))
           | Inr r \<Rightarrow>
               ([ReadFile file_id, Compile source (compile_options config file_id b),
                 Transpile (code ts) (transpile_options file_id)],
                Inr (Some \<lparr>code = code r, map' = map' r\<rparr>))))"
  using assms by (simp add: load_def Let_def split: sum.splits)

lemma load_read_error:
  assumes "endsWith file_id ''.astro''"
    and "isPage h config file_id = Inr b"
    and "readFile h file_id = Inl err"
  shows "load h config file_id opts = ([ReadFile file_id], Inl (Thrown err))"
  using assms by (simp add: load_def)

lemma load_transpile_error:
  assumes "endsWith file_id ''.astro''"
    and "isPage h config file_id = Inr b"
    and "readFile h file_id = Inr source"
    and "transform h source (compile_options config file_id b) (preprocessStyle h file_id opts)
           = Inr ts"
    and "esbuild_transform h (code ts) (transpile_options file_id) = Inl err"
  shows "load h config file_id opts =
           ([ReadFile file_id, Compile source (compile_options config file_id b),
             Transpile (code ts) (transpile_options file_id)],
            Inl (catch_handler h config file_id source err))"
  using assms by (simp add: load_def)

lemma load_thrown_in_try:
  assumes "endsWith file_id ''.astro''"
    and "isPage h config file_id = Inr b"
    and "readFile h file_id = Inr source"
    and "thrown_in_try h config file_id opts b source err"
  shows "snd (load h config file_id opts) = Inl (catch_handler h config file_id source err)"
  using assms by (auto simp: load_def thrown_in_try_def split: sum.splits)

subsection \<open>The catch handler\<close>

lemma get_prop_error: "get_prop v name = Inl e \<Longrightarrow> e = TypeError"
  by (cases v) auto

lemma get_prop_truthy: "truthy v \<Longrightarrow> \<exists>x. get_prop v name = Inr x"
  by (cases v) auto

lemma catch_handler_unmarked:
  assumes "get_prop err ''stack'' = Inr (JSString st)"
    and "\<not> includes_str st ''wasm-function''"
  shows "catch_handler h config file_id source err = Thrown err"
  using assms by (simp add: catch_handler_def)

text \<open>
  The handler on an error whose stack holds the marker, when the project root converts and
  the error allows the three assignments: it throws the error with \<^verbatim>\<open>url\<close>,
  \<^verbatim>\<open>message\<close> and \<^verbatim>\<open>stack\<close> replaced.
\<close>

lemma catch_handler_marked:
  assumes "get_prop (JSObject ps) ''stack'' = Inr (JSString st)"
    and "includes_str st ''wasm-function''"
    and "fileURLToPath h (projectRoot config) = Inr root"
    and "\<forall>obj name. assignable h obj name"
  shows "catch_handler h config file_id source (JSObject ps) =
           Thrown (JSObject
             (AList.update ''stack'' (JSString (''    at '' @ file_id))
               (AList.update ''message'' (JSString (panic_message (issue_url file_id root source)))
                 (AList.update ''url'' (JSString (issue_url file_id root source)) ps))))"
  using assms by (simp add: catch_handler_def Let_def)

text \<open>The same error when it does not allow the first assignment, as a frozen error does.\<close>

lemma catch_handler_frozen:
  assumes "get_prop (JSObject ps) ''stack'' = Inr (JSString st)"
    and "includes_str st ''wasm-function''"
    and "fileURLToPath h (projectRoot config) = Inr root"
    and "\<not> assignable h (JSObject ps) ''url''"
  shows "catch_handler h config file_id source (JSObject ps) = TypeError"
  using assms by (simp add: catch_handler_def Let_def)

lemma marked_error_object:
  assumes "get_prop err ''stack'' = Inr stack"
    and "call_method stack ''includes'' args = Inr found"
  shows "\<exists>ps. err = JSObject ps"
  using assms by (cases err) (auto split: if_splits)

lemma call_includes_TypeError:
  "\<not> has_includes st \<Longrightarrow> call_method st ''includes'' args = Inl TypeError"
  by (cases st) (auto split: option.splits js_value.splits)

lemma catch_handler_no_includes:
  assumes "\<not> stack_has_includes err"
  shows "catch_handler h config file_id source err = TypeError"
  using assms
  by (auto simp: catch_handler_def stack_has_includes_def call_includes_TypeError
      split: sum.splits dest: get_prop_error)

lemma catch_handler_array:
  assumes "get_prop err ''stack'' = Inr (JSArray xs)"
    and "JSString ''wasm-function'' \<notin> set xs"
  shows "catch_handler h config file_id source err = Thrown err"
  using assms by (simp add: catch_handler_def)

text \<open>
  On an error whose stack holds the marker and is not already the one line of the handler,
  the handler never throws the error as it was.
\<close>

lemma catch_handler_changes:
  assumes "get_prop (JSObject ps) ''stack'' = Inr (JSString st)"
    and "includes_str st ''wasm-function''"
    and "fileURLToPath h (projectRoot config) = Inr root"
    and "st \<noteq> ''    at '' @ file_id"
  shows "catch_handler h config file_id source (JSObject ps) \<noteq> Thrown (JSObject ps)"
proof
  assume eq: "catch_handler h config file_id source (JSObject ps) = Thrown (JSObject ps)"
  let ?e = "JSObject
             (AList.update ''stack'' (JSString (''    at '' @ file_id))
               (AList.update ''message'' (JSString (panic_message (issue_url file_id root source)))
                 (AList.update ''url'' (JSString (issue_url file_id root source)) ps)))"
  have "catch_handler h config file_id source (JSObject ps) = TypeError
        \<or> catch_handler h config file_id source (JSObject ps) = Thrown ?e"
    using assms(1-3) by (simp add: catch_handler_def Let_def)
  with eq have "?e = JSObject ps"
    by auto
  then have "get_prop ?e ''stack'' = get_prop (JSObject ps) ''stack''"
    by (simp only:)
  moreover have "get_prop ?e ''stack'' = Inr (JSString (''    at '' @ file_id))"
    by (simp add: update_conv')
  ultimately show False
    using assms(1,4) by simp
qed

subsection \<open>The style callback\<close>

lemma style_map_toString_object:
  assumes "get_prop m ''mappings'' = Inr mappings" and "truthy mappings"
  shows "\<exists>ms. m = JSObject ms"
  using assms by (cases m) (auto split: if_splits)

lemma style_map_other:
  "typeof m \<noteq> ''string'' \<Longrightarrow> \<forall>ms. m \<noteq> JSObject ms \<Longrightarrow> style_map m = Inr JSUndefined"
  by (cases m) (auto simp: style_map_def)

subsection \<open>The example inputs\<close>

lemma example_isPage:
  "isPage (example_host rd tr es st) example_config ''/proj/src/pages/index.astro'' = Inr True"
  by (simp add: isPage_def example_host_def example_config_def startsWith_def)

lemma example_isPage_other:
  "isPage (example_host rd tr es st) example_config ''/proj/src/wasm-function.astro'' = Inr False"
  by (simp add: isPage_def example_host_def example_config_def startsWith_def)

lemma example_endsWith: "endsWith ''/proj/src/wasm-function.astro'' ''.astro''"
  by (simp add: endsWith_def)

lemma example_root:
  "fileURLToPath (example_host rd tr es st) (projectRoot example_config) = Inr ''/proj/''"
  by (simp add: example_host_def example_config_def startsWith_def)

lemma example_assignable: "\<forall>obj name. assignable (example_host rd tr es st) obj name"
  by (simp add: example_host_def)

text \<open>
  The handler on errors that have a string as stack: the error of a compiler panic is
  thrown with message, stack and \<^verbatim>\<open>url\<close> rewritten, an ordinary error is thrown as it
  is.
\<close>

lemma example_panic_rewritten:
  "snd (load (example_host (Inr ''<h1>Hi</h1>'') (Inl panic_error) (Inr example_output)
        (Inr JSNull)) example_config ''/proj/src/pages/index.astro'' JSUndefined)
     = Inl (Thrown (JSObject
         [(''message'',
           JSString (panic_message
             (issue_url ''/proj/src/pages/index.astro'' ''/proj/'' ''<h1>Hi</h1>''))),
          (''stack'', JSString ''    at /proj/src/pages/index.astro''),
          (''url'',
           JSString (issue_url ''/proj/src/pages/index.astro'' ''/proj/'' ''<h1>Hi</h1>''))]))"
proof -
  let ?h = "example_host (Inr ''<h1>Hi</h1>'') (Inl panic_error) (Inr example_output) (Inr JSNull)"
  let ?f = "''/proj/src/pages/index.astro''"
  let ?st = "''RuntimeError: unreachable at wasm-function[1011]:0x3f2a''"
  have 1: "endsWith ?f ''.astro''"
    by (simp add: endsWith_def)
  have 3: "readFile ?h ?f = Inr ''<h1>Hi</h1>''"
    by (simp add: example_host_def)
  have 4: "thrown_in_try ?h example_config ?f JSUndefined True ''<h1>Hi</h1>'' panic_error"
    by (simp add: thrown_in_try_def example_host_def)
  have s: "get_prop panic_error ''stack'' = Inr (JSString ?st)"
    by (simp add: panic_error_def)
  have m: "includes_str ?st ''wasm-function''"
    by code_simp
  have "catch_handler ?h example_config ?f ''<h1>Hi</h1>'' panic_error
          = Thrown (JSObject
             (AList.update ''stack'' (JSString (''    at '' @ ?f))
               (AList.update ''message''
                 (JSString (panic_message (issue_url ?f ''/proj/'' ''<h1>Hi</h1>'')))
                 (AList.update ''url'' (JSString (issue_url ?f ''/proj/'' ''<h1>Hi</h1>''))
                   [(''message'', JSString ''unreachable''), (''stack'', JSString ?st)]))))"
    unfolding panic_error_def
    by (rule catch_handler_marked
        [OF s [unfolded panic_error_def] m example_root example_assignable])
  then show ?thesis
    using load_thrown_in_try [OF 1 example_isPage 3 4] by simp
qed

lemma example_plain_rethrown:
  "snd (load (example_host (Inr ''<h1>Hi</h1>'') (Inl plain_error) (Inr example_output)
        (Inr JSNull)) example_config ''/proj/src/pages/index.astro'' JSUndefined)
     = Inl (Thrown plain_error)"
proof -
  let ?h = "example_host (Inr ''<h1>Hi</h1>'') (Inl plain_error) (Inr example_output) (Inr JSNull)"
  let ?f = "''/proj/src/pages/index.astro''"
  let ?st = "''Error: Unexpected token at transform''"
  have 1: "endsWith ?f ''.astro''"
    by (simp add: endsWith_def)
  have 3: "readFile ?h ?f = Inr ''<h1>Hi</h1>''"
    by (simp add: example_host_def)
  have 4: "thrown_in_try ?h example_config ?f JSUndefined True ''<h1>Hi</h1>'' plain_error"
    by (simp add: thrown_in_try_def example_host_def)
  have s: "get_prop plain_error ''stack'' = Inr (JSString ?st)"
    by (simp add: plain_error_def)
  have m: "\<not> includes_str ?st ''wasm-function''"
    by code_simp
  have "catch_handler ?h example_config ?f ''<h1>Hi</h1>'' plain_error = Thrown plain_error"
    using s m by (rule catch_handler_unmarked)
  then show ?thesis
    using load_thrown_in_try [OF 1 example_isPage 3 4] by simp
qed


subsection \<open>The claims\<close>

text \<open>
  C1, at a failing input. The claim asks that an error whose stack does not contain the
  marker be thrown again unchanged. When the compiler throws an error that has no
  \<^verbatim>\<open>stack\<close>, the handler's \<^verbatim>\<open>err.stack.includes(...)\<close> (line 95, before the
  \<^verbatim>\<open>throw err\<close> of line 119) raises a \<^verbatim>\<open>TypeError\<close>, and \<^verbatim>\<open>load\<close> throws that
  instead of the error, after the read and the compiler call.
\<close>

theorem load_stackless_error_masked:
  "transform
     (example_host (Inr ''<h1>Hi</h1>'') (Inl stackless_error) (Inr example_output) (Inr JSNull))
     ''<h1>Hi</h1>'' (compile_options example_config ''/proj/src/pages/index.astro'' True)
     (preprocessStyle
        (example_host (Inr ''<h1>Hi</h1>'') (Inl stackless_error) (Inr example_output) (Inr JSNull))
        ''/proj/src/pages/index.astro'' JSUndefined)
    = Inl stackless_error
   \<and> get_prop stackless_error ''stack'' = Inr JSUndefined
   \<and> load (example_host (Inr ''<h1>Hi</h1>'') (Inl stackless_error) (Inr example_output)
        (Inr JSNull)) example_config ''/proj/src/pages/index.astro'' JSUndefined
       = ([ReadFile ''/proj/src/pages/index.astro'',
           Compile ''<h1>Hi</h1>''
             (compile_options example_config ''/proj/src/pages/index.astro'' True)],
          Inl TypeError)"
proof -
  let ?h = "example_host (Inr ''<h1>Hi</h1>'') (Inl stackless_error) (Inr example_output)
        (Inr JSNull)"
  let ?f = "''/proj/src/pages/index.astro''"
  have 1: "endsWith ?f ''.astro''"
    by (simp add: endsWith_def)
  have 3: "readFile ?h ?f = Inr ''<h1>Hi</h1>''"
    by (simp add: example_host_def)
  have 4: "transform ?h ''<h1>Hi</h1>'' (compile_options example_config ?f True)
             (preprocessStyle ?h ?f JSUndefined) = Inl stackless_error"
    by (simp add: example_host_def)
  have 5: "catch_handler ?h example_config ?f ''<h1>Hi</h1>'' stackless_error = TypeError"
    by (simp add: catch_handler_def stackless_error_def)
  have 6: "load ?h example_config ?f JSUndefined
             = ([ReadFile ?f, Compile ''<h1>Hi</h1>'' (compile_options example_config ?f True)],
                Inl TypeError)"
    using load_run [OF 1 example_isPage 3, of JSUndefined] 4 5 by simp
  have 7: "get_prop stackless_error ''stack'' = Inr JSUndefined"
    by (simp add: stackless_error_def)
  show ?thesis
    using 4 7 6 by (intro conjI)
qed



text \<open>
  C3, amended. \<open>isSSR\<close> returns \<open>False\<close> for \<^verbatim>\<open>undefined\<close>, the boolean itself for a
  boolean, the truthiness of the \<^verbatim>\<open>ssr\<close> property for an object (an array included), and
  \<open>False\<close> for every value whose \<^verbatim>\<open>typeof\<close> is neither \<^verbatim>\<open>boolean\<close> nor \<^verbatim>\<open>object\<close>.
  It returns a boolean on every value but \<^verbatim>\<open>null\<close>.
\<close>

theorem isSSR_cases:
  "isSSR JSUndefined = Inr False
   \<and> isSSR (JSBoolean b) = Inr b
   \<and> isSSR (JSObject ps) =
       Inr (truthy (case map_of ps ''ssr'' of Some v \<Rightarrow> v | None \<Rightarrow> JSUndefined))
   \<and> isSSR (JSObject [(''ssr'', JSBoolean True)]) = Inr True
   \<and> isSSR (JSObject [(''ssr'', JSBoolean False)]) = Inr False
   \<and> isSSR (JSObject []) = Inr False
   \<and> isSSR (JSArray xs) = Inr False
   \<and> isSSR (JSNumber n) = Inr False
   \<and> isSSR JSNaN = Inr False
   \<and> isSSR (JSBigInt n) = Inr False
   \<and> isSSR (JSSymbol d) = Inr False
   \<and> isSSR (JSString s) = Inr False
   \<and> isSSR (JSFunction c) = Inr False
   \<and> (v \<noteq> JSNull \<longrightarrow> (\<exists>r. isSSR v = Inr r))"
proof -
  have "v \<noteq> JSNull \<longrightarrow> (\<exists>r. isSSR v = Inr r)"
    by (cases v) auto
  then show ?thesis
    by simp
qed

theorem isSSR_cases_witness:
  "JSObject [(''ssr'', JSNumber 1)] \<noteq> JSNull
   \<and> (\<exists>r. isSSR (JSObject [(''ssr'', JSNumber 1)]) = Inr r)
   \<and> isSSR (JSObject [(''ssr'', JSNumber 1)]) = Inr True"
  using isSSR_cases [where v = "JSObject [(''ssr'', JSNumber 1)]" and ps = "[(''ssr'', JSNumber 1)]"]
  by simp

text \<open>
  C3 as stated fails on \<^verbatim>\<open>null\<close>: \<^verbatim>\<open>typeof null\<close> is \<^verbatim>\<open>'object'\<close>, so line 28 reads
  \<^verbatim>\<open>null.ssr\<close>, which raises a \<^verbatim>\<open>TypeError\<close> instead of returning \<open>False\<close>.
\<close>

theorem isSSR_null_counterexample: "isSSR JSNull = Inl TypeError"
  by simp

text \<open>
  C4, amended. When the style transform returns a falsy value (\<^verbatim>\<open>null\<close> and
  \<^verbatim>\<open>undefined\<close> among them), the callback returns that value unchanged. Otherwise it
  returns \<^verbatim>\<open>{code, map}\<close> where \<^verbatim>\<open>map\<close> is \<^verbatim>\<open>undefined\<close> when the result's map is
  absent, the map itself when it is a non-empty string, the outcome of its \<^verbatim>\<open>toString()\<close>
  when it is an object with a truthy \<^verbatim>\<open>mappings\<close>, and \<^verbatim>\<open>undefined\<close> for an object
  without a truthy \<^verbatim>\<open>mappings\<close> (such as \<^verbatim>\<open>{}\<close>) and for every other value that is not
  a string.
\<close>

theorem preprocessStyle_map:
  assumes "isSSR opts = Inr ssr"
    and "transformWithVite h
           \<lparr>tw_value = val, tw_lang = style_lang h attrs, tw_id = file_id, tw_ssr = ssr\<rparr> = Inr result"
  shows "(\<not> truthy result \<longrightarrow> preprocessStyle h file_id opts val attrs = Inr result)
       \<and> (truthy result \<longrightarrow>
            (\<exists>m c. get_prop result ''map'' = Inr m \<and> get_prop result ''code'' = Inr c
               \<and> preprocessStyle h file_id opts val attrs =
                   (case style_map m of
                      Inl e \<Rightarrow> Inl e
                    | Inr m' \<Rightarrow> Inr (JSObject [(''code'', c), (''map'', m')]))))
       \<and> style_map JSUndefined = Inr JSUndefined
       \<and> style_map JSNull = Inr JSUndefined
       \<and> (s \<noteq> [] \<longrightarrow> style_map (JSString s) = Inr (JSString s))
       \<and> style_map (JSString ''abc'') = Inr (JSString ''abc'')
       \<and> (truthy (field ms ''mappings'')
            \<longrightarrow> style_map (JSObject ms) = call_method (JSObject ms) ''toString'' [])
       \<and> style_map (JSObject [(''mappings'', JSString ''AAA''),
                               (''toString'', JSFunction (Return (JSString ''X'')))])
            = Inr (JSString ''X'')
       \<and> (\<not> truthy (field ms ''mappings'') \<longrightarrow> style_map (JSObject ms) = Inr JSUndefined)
       \<and> style_map (JSObject []) = Inr JSUndefined
       \<and> (typeof m \<noteq> ''string'' \<and> (\<forall>ms. m \<noteq> JSObject ms) \<longrightarrow> style_map m = Inr JSUndefined)"
proof -
  have falsy: "\<not> truthy result \<longrightarrow> preprocessStyle h file_id opts val attrs = Inr result"
    using assms by (simp add: preprocessStyle_def)
  have "\<exists>m c. get_prop result ''map'' = Inr m \<and> get_prop result ''code'' = Inr c
               \<and> preprocessStyle h file_id opts val attrs =
                   (case style_map m of
                      Inl e \<Rightarrow> Inl e
                    | Inr m' \<Rightarrow> Inr (JSObject [(''code'', c), (''map'', m')]))"
    if t: "truthy result"
  proof -
    obtain m where m: "get_prop result ''map'' = Inr m"
      using get_prop_truthy [OF t] by blast
    obtain c where c: "get_prop result ''code'' = Inr c"
      using get_prop_truthy [OF t] by blast
    show ?thesis
      using assms t m c by (simp add: preprocessStyle_def split: sum.splits)
  qed
  then have shaped: "truthy result \<longrightarrow>
            (\<exists>m c. get_prop result ''map'' = Inr m \<and> get_prop result ''code'' = Inr c
               \<and> preprocessStyle h file_id opts val attrs =
                   (case style_map m of
                      Inl e \<Rightarrow> Inl e
                    | Inr m' \<Rightarrow> Inr (JSObject [(''code'', c), (''map'', m')])))"
    by blast
  have maps: "style_map JSUndefined = Inr JSUndefined"
    "style_map JSNull = Inr JSUndefined"
    "s \<noteq> [] \<longrightarrow> style_map (JSString s) = Inr (JSString s)"
    "style_map (JSString ''abc'') = Inr (JSString ''abc'')"
    "truthy (field ms ''mappings'')
       \<longrightarrow> style_map (JSObject ms) = call_method (JSObject ms) ''toString'' []"
    "style_map (JSObject [(''mappings'', JSString ''AAA''),
                          (''toString'', JSFunction (Return (JSString ''X'')))])
       = Inr (JSString ''X'')"
    "\<not> truthy (field ms ''mappings'') \<longrightarrow> style_map (JSObject ms) = Inr JSUndefined"
    "style_map (JSObject []) = Inr JSUndefined"
    by (simp_all add: style_map_def field_def)
  have other: "typeof m \<noteq> ''string'' \<and> (\<forall>ms. m \<noteq> JSObject ms) \<longrightarrow> style_map m = Inr JSUndefined"
    using style_map_other by blast
  show ?thesis
    using falsy shaped maps other by blast
qed

text \<open>
  The hypotheses hold when the transform returns a map object that serializes to \<^verbatim>\<open>X\<close>.
\<close>

theorem preprocessStyle_map_witness:
  "isSSR JSUndefined = Inr False
   \<and> transformWithVite
        (example_host (Inr ''x'') (Inr example_output) (Inr example_output) (Inr mapped_style))
        \<lparr>tw_value = ''a{}'',
         tw_lang =
           style_lang
             (example_host (Inr ''x'') (Inr example_output) (Inr example_output)
                (Inr mapped_style)) None,
         tw_id = ''/proj/src/A.astro'', tw_ssr = False\<rparr> = Inr mapped_style
   \<and> truthy mapped_style
   \<and> preprocessStyle
        (example_host (Inr ''x'') (Inr example_output) (Inr example_output) (Inr mapped_style))
        ''/proj/src/A.astro'' JSUndefined ''a{}'' None
       = Inr (JSObject [(''code'', JSString ''a{}''), (''map'', JSString ''X'')])"
proof -
  let ?h = "example_host (Inr ''x'') (Inr example_output) (Inr example_output) (Inr mapped_style)"
  have 1: "isSSR JSUndefined = Inr False"
    by simp
  have 2: "transformWithVite ?h
        \<lparr>tw_value = ''a{}'', tw_lang = style_lang ?h None, tw_id = ''/proj/src/A.astro'',
         tw_ssr = False\<rparr> = Inr mapped_style"
    by (simp add: example_host_def)
  have 3: "truthy mapped_style"
    by (simp add: mapped_style_def)
  have 4: "style_map (JSObject [(''mappings'', JSString ''AAA''),
                               (''toString'', JSFunction (Return (JSString ''X'')))])
            = Inr (JSString ''X'')"
    using preprocessStyle_map [OF 1 2] by blast
  have "\<exists>m c. get_prop mapped_style ''map'' = Inr m \<and> get_prop mapped_style ''code'' = Inr c
               \<and> preprocessStyle ?h ''/proj/src/A.astro'' JSUndefined ''a{}'' None =
                   (case style_map m of
                      Inl e \<Rightarrow> Inl e
                    | Inr m' \<Rightarrow> Inr (JSObject [(''code'', c), (''map'', m')]))"
    using preprocessStyle_map [OF 1 2] 3 by blast
  then have "preprocessStyle ?h ''/proj/src/A.astro'' JSUndefined ''a{}'' None
       = Inr (JSObject [(''code'', JSString ''a{}''), (''map'', JSString ''X'')])"
    using 4 by (auto simp: mapped_style_def)
  with 1 2 3 show ?thesis
    by (intro conjI)
qed

text \<open>
  C4 as stated fails on a map that is the empty string: line 75 tests \<^verbatim>\<open>result.map\<close> for
  truthiness first, so the string is not returned as it is but replaced by \<^verbatim>\<open>undefined\<close>.
\<close>

theorem preprocessStyle_empty_map_counterexample:
  "preprocessStyle
     (example_host (Inr ''x'') (Inr example_output) (Inr example_output) (Inr empty_map_style))
     ''/proj/src/A.astro'' JSUndefined ''a{}'' None
    = Inr (JSObject [(''code'', JSString ''a{}''), (''map'', JSUndefined)])"
  by (simp add: preprocessStyle_def example_host_def empty_map_style_def style_map_def)

text \<open>
  C5. For a file id that does not end in \<^verbatim>\<open>.astro\<close>, \<^verbatim>\<open>load\<close> returns \<^verbatim>\<open>null\<close> and
  calls nothing: whatever the host, the configuration and the options are, no file is read
  and neither the compiler nor esbuild is called.
\<close>

theorem load_other_extension:
  "\<not> endsWith file_id ''.astro'' \<Longrightarrow> load h config file_id opts = ([], Inr None)"
  by (simp add: load_def)

theorem load_other_extension_witness:
  "\<not> endsWith ''/proj/src/main.ts'' ''.astro''
   \<and> load (example_host (Inr ''x'') (Inr example_output) (Inr example_output) (Inr JSNull))
        example_config ''/proj/src/main.ts'' JSUndefined = ([], Inr None)"
  using load_other_extension [of "''/proj/src/main.ts''"
      "example_host (Inr ''x'') (Inr example_output) (Inr example_output) (Inr JSNull)"
      example_config JSUndefined]
  by (simp add: endsWith_def)

text \<open>
  C6, amended. Let the file id end in \<^verbatim>\<open>.astro\<close>. An exception of the path conversions
  (lines 51 and 52) and an exception of the file read (line 53) are raised before the
  \<^verbatim>\<open>try\<close> block: they leave \<^verbatim>\<open>load\<close> as they are, whatever their stack holds, without
  passing through the catch handler. An exception of the compiler or of esbuild is caught,
  and \<^verbatim>\<open>load\<close> throws what the handler throws for it.
\<close>

theorem load_error_routes:
  assumes "endsWith file_id ''.astro''"
  shows "(isPage h config file_id = Inl e \<longrightarrow> load h config file_id opts = ([], Inl (Thrown e)))
       \<and> (isPage h config file_id = Inr b \<and> readFile h file_id = Inl e
            \<longrightarrow> load h config file_id opts = ([ReadFile file_id], Inl (Thrown e)))
       \<and> (isPage h config file_id = Inr b \<and> readFile h file_id = Inr source
            \<and> thrown_in_try h config file_id opts b source e
            \<longrightarrow> snd (load h config file_id opts) = Inl (catch_handler h config file_id source e))"
proof (intro conjI impI)
  assume "isPage h config file_id = Inl e"
  then show "load h config file_id opts = ([], Inl (Thrown e))"
    using assms by (simp add: load_def)
next
  assume "isPage h config file_id = Inr b \<and> readFile h file_id = Inl e"
  then show "load h config file_id opts = ([ReadFile file_id], Inl (Thrown e))"
    using assms load_read_error by blast
next
  assume "isPage h config file_id = Inr b \<and> readFile h file_id = Inr source
            \<and> thrown_in_try h config file_id opts b source e"
  then show "snd (load h config file_id opts) = Inl (catch_handler h config file_id source e)"
    using assms load_thrown_in_try by blast
qed

text \<open>The hypotheses hold for a file that cannot be read.\<close>

theorem load_error_routes_witness:
  "endsWith ''/proj/src/wasm-function.astro'' ''.astro''
   \<and> isPage (example_host (Inl read_error) (Inr example_output) (Inr example_output) (Inr JSNull))
       example_config ''/proj/src/wasm-function.astro'' = Inr False
   \<and> readFile (example_host (Inl read_error) (Inr example_output) (Inr example_output) (Inr JSNull))
       ''/proj/src/wasm-function.astro'' = Inl read_error
   \<and> load (example_host (Inl read_error) (Inr example_output) (Inr example_output) (Inr JSNull))
       example_config ''/proj/src/wasm-function.astro'' JSUndefined
      = ([ReadFile ''/proj/src/wasm-function.astro''], Inl (Thrown read_error))"
proof -
  let ?h = "example_host (Inl read_error) (Inr example_output) (Inr example_output) (Inr JSNull)"
  let ?f = "''/proj/src/wasm-function.astro''"
  have 1: "endsWith ?f ''.astro''"
    by (rule example_endsWith)
  have 2: "isPage ?h example_config ?f = Inr False"
    by (rule example_isPage_other)
  have 3: "readFile ?h ?f = Inl read_error"
    by (simp add: example_host_def)
  have 4: "load ?h example_config ?f JSUndefined = ([ReadFile ?f], Inl (Thrown read_error))"
    using load_error_routes [OF 1, THEN conjunct2, THEN conjunct1] 2 3 by blast
  show ?thesis
    using 1 2 3 4 by (intro conjI)
qed

text \<open>
  C6 as stated fails on the file read: the read error of a file named
  \<^verbatim>\<open>wasm-function.astro\<close> carries the marker in its stack and still leaves \<^verbatim>\<open>load\<close>
  unchanged, whereas the catch handler, given this error (and the source that was never
  read as the empty string), throws a different value.
\<close>

theorem load_read_error_counterexample:
  "load (example_host (Inl read_error) (Inr example_output) (Inr example_output) (Inr JSNull))
       example_config ''/proj/src/wasm-function.astro'' JSUndefined
      = ([ReadFile ''/proj/src/wasm-function.astro''], Inl (Thrown read_error))
   \<and> catch_handler
       (example_host (Inl read_error) (Inr example_output) (Inr example_output) (Inr JSNull))
       example_config ''/proj/src/wasm-function.astro'' [] read_error
      \<noteq> Thrown read_error"
proof -
  let ?h = "example_host (Inl read_error) (Inr example_output) (Inr example_output) (Inr JSNull)"
  let ?f = "''/proj/src/wasm-function.astro''"
  let ?st = "''Error: ENOENT: no such file or directory, open /proj/src/wasm-function.astro''"
  have 1: "load ?h example_config ?f JSUndefined = ([ReadFile ?f], Inl (Thrown read_error))"
    using example_endsWith example_isPage_other
    by (rule load_read_error) (simp add: example_host_def)
  have s: "get_prop read_error ''stack'' = Inr (JSString ?st)"
    by (simp add: read_error_def)
  have m: "includes_str ?st ''wasm-function''"
    by code_simp
  have n: "?st \<noteq> ''    at '' @ ?f"
    by simp
  have 2: "catch_handler ?h example_config ?f [] read_error \<noteq> Thrown read_error"
    unfolding read_error_def
    by (rule catch_handler_changes [OF s [unfolded read_error_def] m example_root n])
  show ?thesis
    using 1 2 by (intro conjI)
qed

text \<open>
  C7, at a failing input. The claim asks that an error of esbuild be thrown unchanged, the
  rewriting being meant for compiler errors (the comment of line 94, the message of line
  110). esbuild quotes the file name in the message that heads the stack, so for the file
  \<^verbatim>\<open>/proj/src/wasm-function.astro\<close> its error holds the marker: \<^verbatim>\<open>load\<close> throws it
  with the message of a compiler panic, the issue URL and the one-line stack in place of
  its own.
\<close>

theorem load_transpile_error_enriched:
  "esbuild_transform
     (example_host (Inr ''<h1>Hi</h1>'') (Inr example_output) (Inl transpile_error) (Inr JSNull))
     (code example_output) (transpile_options ''/proj/src/wasm-function.astro'')
    = Inl transpile_error
   \<and> snd (load
            (example_host (Inr ''<h1>Hi</h1>'') (Inr example_output) (Inl transpile_error)
               (Inr JSNull))
            example_config ''/proj/src/wasm-function.astro'' JSUndefined)
       = Inl (Thrown (JSObject
           [(''message'',
             JSString (panic_message
               (issue_url ''/proj/src/wasm-function.astro'' ''/proj/'' ''<h1>Hi</h1>''))),
            (''stack'', JSString ''    at /proj/src/wasm-function.astro''),
            (''url'',
             JSString (issue_url ''/proj/src/wasm-function.astro'' ''/proj/'' ''<h1>Hi</h1>''))]))
   \<and> snd (load
            (example_host (Inr ''<h1>Hi</h1>'') (Inr example_output) (Inl transpile_error)
               (Inr JSNull))
            example_config ''/proj/src/wasm-function.astro'' JSUndefined)
       \<noteq> Inl (Thrown transpile_error)"
proof -
  let ?h = "example_host (Inr ''<h1>Hi</h1>'') (Inr example_output) (Inl transpile_error) (Inr JSNull)"
  let ?f = "''/proj/src/wasm-function.astro''"
  let ?st = "''Error: Transform failed with 1 error: /proj/src/wasm-function.astro:1:0: Unexpected token''"
  let ?u = "issue_url ?f ''/proj/'' ''<h1>Hi</h1>''"
  let ?e = "JSObject
           [(''message'', JSString (panic_message ?u)),
            (''stack'', JSString ''    at /proj/src/wasm-function.astro''),
            (''url'', JSString ?u)]"
  have 3: "readFile ?h ?f = Inr ''<h1>Hi</h1>''"
    by (simp add: example_host_def)
  have 4: "transform ?h ''<h1>Hi</h1>'' (compile_options example_config ?f False)
             (preprocessStyle ?h ?f JSUndefined) = Inr example_output"
    by (simp add: example_host_def)
  have 5: "esbuild_transform ?h (code example_output) (transpile_options ?f) = Inl transpile_error"
    by (simp add: example_host_def)
  have l: "snd (load ?h example_config ?f JSUndefined)
             = Inl (catch_handler ?h example_config ?f ''<h1>Hi</h1>'' transpile_error)"
    using load_transpile_error [OF example_endsWith example_isPage_other 3 4 5] by simp
  have s: "get_prop transpile_error ''stack'' = Inr (JSString ?st)"
    by (simp add: transpile_error_def)
  have m: "includes_str ?st ''wasm-function''"
    by code_simp
  have "catch_handler ?h example_config ?f ''<h1>Hi</h1>'' transpile_error
          = Thrown (JSObject
             (AList.update ''stack'' (JSString (''    at '' @ ?f))
               (AList.update ''message'' (JSString (panic_message ?u))
                 (AList.update ''url'' (JSString ?u)
                   [(''message'',
                     JSString ''Transform failed with 1 error: /proj/src/wasm-function.astro:1:0: Unexpected token''),
                    (''stack'', JSString ?st)]))))"
    unfolding transpile_error_def
    by (rule catch_handler_marked
        [OF s [unfolded transpile_error_def] m example_root example_assignable])
  then have c: "catch_handler ?h example_config ?f ''<h1>Hi</h1>'' transpile_error = Thrown ?e"
    by simp
  have 6: "snd (load ?h example_config ?f JSUndefined) = Inl (Thrown ?e)"
    using l c by simp
  have "?e \<noteq> transpile_error"
    by (simp add: transpile_error_def)
  with 6 have 7: "snd (load ?h example_config ?f JSUndefined) \<noteq> Inl (Thrown transpile_error)"
    by simp
  show ?thesis
    using 5 6 7 by (intro conjI)
qed

text \<open>
  C8, amended. The language token is \<^verbatim>\<open>.css\<close> when \<^verbatim>\<open>attrs\<close> is nullish or has no
  \<^verbatim>\<open>lang\<close>, and the lower-casing (\<^verbatim>\<open>toLowerCase\<close>) of the dot followed by \<^verbatim>\<open>lang\<close>
  when \<^verbatim>\<open>lang\<close> is a non-empty string. For a \<^verbatim>\<open>lang\<close> of ASCII characters that is the
  dot followed by \<^verbatim>\<open>lang\<close> with \<^verbatim>\<open>A\<close> to \<^verbatim>\<open>Z\<close> replaced by \<^verbatim>\<open>a\<close> to \<^verbatim>\<open>z\<close>, which
  holds no upper-case ASCII letter, so \<^verbatim>\<open>SCSS\<close> gives \<^verbatim>\<open>.scss\<close>. The token always
  starts with a dot that something follows. It is the \<^verbatim>\<open>lang\<close> of the request that the
  callback makes of the style transform: what the transform throws on that request the
  callback throws, a falsy value that it returns there the callback returns, and two hosts
  with the same lower-casing whose transforms agree on that request give the same result.
\<close>

theorem style_lang_token:
  "style_lang h None = ''.css''
   \<and> (a ''lang'' = None \<longrightarrow> style_lang h (Some a) = ''.css'')
   \<and> (a ''lang'' = Some l \<and> l \<noteq> []
        \<longrightarrow> style_lang h (Some a) = toLowerCase (unicodeLower h) (''.'' @ l))
   \<and> (a ''lang'' = Some l \<and> l \<noteq> [] \<and> (\<forall>c\<in>set l. is_ascii c)
        \<longrightarrow> style_lang h (Some a) = ''.'' @ map lower_ascii l
            \<and> (\<forall>x\<in>set (style_lang h (Some a)).
                  \<not> (65 \<le> (of_char x :: nat) \<and> (of_char x :: nat) \<le> 90)))
   \<and> style_lang h (Some [''lang'' \<mapsto> ''SCSS'']) = ''.scss''
   \<and> (\<exists>r. style_lang h attrs = ''.'' @ r \<and> r \<noteq> [])
   \<and> (isSSR opts = Inr ssr
        \<and> transformWithVite h
            \<lparr>tw_value = val, tw_lang = style_lang h attrs, tw_id = file_id, tw_ssr = ssr\<rparr>
          = Inl e
        \<longrightarrow> preprocessStyle h file_id opts val attrs = Inl (Thrown e))
   \<and> (isSSR opts = Inr ssr
        \<and> transformWithVite h
            \<lparr>tw_value = val, tw_lang = style_lang h attrs, tw_id = file_id, tw_ssr = ssr\<rparr>
          = Inr result
        \<and> \<not> truthy result
        \<longrightarrow> preprocessStyle h file_id opts val attrs = Inr result)
   \<and> (isSSR opts = Inr ssr
        \<and> unicodeLower h' = unicodeLower h
        \<and> transformWithVite h'
            \<lparr>tw_value = val, tw_lang = style_lang h attrs, tw_id = file_id, tw_ssr = ssr\<rparr>
          = transformWithVite h
            \<lparr>tw_value = val, tw_lang = style_lang h attrs, tw_id = file_id, tw_ssr = ssr\<rparr>
        \<longrightarrow> preprocessStyle h' file_id opts val attrs = preprocessStyle h file_id opts val attrs)"
proof -
  have 1: "style_lang h None = ''.css''"
    by (rule style_lang_default) simp
  have 2: "a ''lang'' = None \<longrightarrow> style_lang h (Some a) = ''.css''"
    using style_lang_default [of "Some a" h] by simp
  have 3: "a ''lang'' = Some l \<and> l \<noteq> []
        \<longrightarrow> style_lang h (Some a) = toLowerCase (unicodeLower h) (''.'' @ l)"
    using style_lang_given [of a l h] by blast
  have 4: "a ''lang'' = Some l \<and> l \<noteq> [] \<and> (\<forall>c\<in>set l. is_ascii c)
        \<longrightarrow> style_lang h (Some a) = ''.'' @ map lower_ascii l
            \<and> (\<forall>x\<in>set (style_lang h (Some a)).
                  \<not> (65 \<le> (of_char x :: nat) \<and> (of_char x :: nat) \<le> 90))"
  proof (intro impI)
    assume h: "a ''lang'' = Some l \<and> l \<noteq> [] \<and> (\<forall>c\<in>set l. is_ascii c)"
    then have "\<forall>c\<in>set (''.'' @ l). is_ascii c"
      by (simp add: is_ascii_dot)
    then have "toLowerCase (unicodeLower h) (''.'' @ l) = map lower_ascii (''.'' @ l)"
      by (rule toLowerCase_ascii)
    then have eq: "style_lang h (Some a) = ''.'' @ map lower_ascii l"
      using h style_lang_given [of a l h] by (simp add: lower_ascii_dot)
    have "\<forall>x\<in>set (''.'' @ map lower_ascii l).
            \<not> (65 \<le> (of_char x :: nat) \<and> (of_char x :: nat) \<le> 90)"
      using h lower_ascii_not_upper by auto
    with eq show "style_lang h (Some a) = ''.'' @ map lower_ascii l
            \<and> (\<forall>x\<in>set (style_lang h (Some a)).
                  \<not> (65 \<le> (of_char x :: nat) \<and> (of_char x :: nat) \<le> 90))"
      by simp
  qed
  have "\<forall>c\<in>set ''.SCSS''. is_ascii c"
    by (simp add: is_ascii_def)
  then have "toLowerCase (unicodeLower h) ''.SCSS'' = map lower_ascii ''.SCSS''"
    by (rule toLowerCase_ascii)
  moreover have "map lower_ascii ''.SCSS'' = ''.scss''"
    by code_simp
  ultimately have 5: "style_lang h (Some [''lang'' \<mapsto> ''SCSS'']) = ''.scss''"
    by (simp add: style_lang_def)
  have 6: "\<exists>r. style_lang h attrs = ''.'' @ r \<and> r \<noteq> []"
    by (rule style_lang_dot)
  have 7: "isSSR opts = Inr ssr
        \<and> transformWithVite h
            \<lparr>tw_value = val, tw_lang = style_lang h attrs, tw_id = file_id, tw_ssr = ssr\<rparr>
          = Inl e
        \<longrightarrow> preprocessStyle h file_id opts val attrs = Inl (Thrown e)"
    by (simp add: preprocessStyle_def)
  have 8: "isSSR opts = Inr ssr
        \<and> transformWithVite h
            \<lparr>tw_value = val, tw_lang = style_lang h attrs, tw_id = file_id, tw_ssr = ssr\<rparr>
          = Inr result
        \<and> \<not> truthy result
        \<longrightarrow> preprocessStyle h file_id opts val attrs = Inr result"
    by (simp add: preprocessStyle_def)
  have 9: "isSSR opts = Inr ssr
        \<and> unicodeLower h' = unicodeLower h
        \<and> transformWithVite h'
            \<lparr>tw_value = val, tw_lang = style_lang h attrs, tw_id = file_id, tw_ssr = ssr\<rparr>
          = transformWithVite h
            \<lparr>tw_value = val, tw_lang = style_lang h attrs, tw_id = file_id, tw_ssr = ssr\<rparr>
        \<longrightarrow> preprocessStyle h' file_id opts val attrs = preprocessStyle h file_id opts val attrs"
    by (simp add: preprocessStyle_def style_lang_def)
  show ?thesis
    using 1 2 3 4 5 6 7 8 9 by (intro conjI)
qed

text \<open>
  The hypotheses hold for \<^verbatim>\<open>lang = "SCSS"\<close> on a host whose style transform throws; on
  that host a capital A with diaeresis followed by \<^verbatim>\<open>B\<close> gives the dot and the two small
  letters.
\<close>

theorem style_lang_token_witness:
  "[''lang'' \<mapsto> ''SCSS''] ''lang'' = Some ''SCSS''
   \<and> ''SCSS'' \<noteq> []
   \<and> list_all is_ascii ''SCSS''
   \<and> style_lang (example_host (Inr ''x'') (Inr example_output) (Inr example_output)
         (Inl (JSString ''boom''))) (Some [''lang'' \<mapsto> ''SCSS''])
       = ''.'' @ map lower_ascii ''SCSS''
   \<and> style_lang (example_host (Inr ''x'') (Inr example_output) (Inr example_output)
         (Inl (JSString ''boom''))) (Some [''lang'' \<mapsto> ''SCSS'']) = ''.scss''
   \<and> style_lang (example_host (Inr ''x'') (Inr example_output) (Inr example_output)
         (Inl (JSString ''boom''))) (Some [''lang'' \<mapsto> [CHR 0xC3, CHR 0x84, CHR ''B'']])
       = [CHR ''.'', CHR 0xC3, CHR 0xA4, CHR ''b'']
   \<and> isSSR JSUndefined = Inr False
   \<and> preprocessStyle (example_host (Inr ''x'') (Inr example_output) (Inr example_output)
         (Inl (JSString ''boom''))) ''/proj/src/A.astro'' JSUndefined ''a{}''
         (Some [''lang'' \<mapsto> ''SCSS''])
       = Inl (Thrown (JSString ''boom''))"
proof -
  let ?h = "example_host (Inr ''x'') (Inr example_output) (Inr example_output)
         (Inl (JSString ''boom''))"
  let ?a = "[''lang'' \<mapsto> ''SCSS'']"
  let ?b = "[''lang'' \<mapsto> [CHR 0xC3, CHR 0x84, CHR ''B'']]"
  have 1: "?a ''lang'' = Some ''SCSS''" and 2: "''SCSS'' \<noteq> []"
    by simp_all
  have 3: "\<forall>c\<in>set ''SCSS''. is_ascii c" and asc: "list_all is_ascii ''SCSS''"
    by (simp_all add: is_ascii_def)
  note t = style_lang_token [where h = ?h and a = ?a and l = "''SCSS''" and attrs = "Some ?a"
      and opts = JSUndefined and ssr = False and val = "''a{}''" and file_id = "''/proj/src/A.astro''"
      and e = "JSString ''boom''"]
  have 4: "style_lang ?h (Some ?a) = ''.'' @ map lower_ascii ''SCSS''"
    using t [THEN conjunct2, THEN conjunct2, THEN conjunct2, THEN conjunct1] 1 2 3 by blast
  have 5: "style_lang ?h (Some ?a) = ''.scss''"
    using t [THEN conjunct2, THEN conjunct2, THEN conjunct2, THEN conjunct2, THEN conjunct1] .
  have b: "?b ''lang'' = Some [CHR 0xC3, CHR 0x84, CHR ''B'']"
    and b': "[CHR 0xC3, CHR 0x84, CHR ''B''] \<noteq> []"
    by simp_all
  have "style_lang ?h (Some ?b)
          = toLowerCase (unicodeLower ?h) (''.'' @ [CHR 0xC3, CHR 0x84, CHR ''B''])"
    using style_lang_token [where h = ?h and a = ?b and l = "[CHR 0xC3, CHR 0x84, CHR ''B'']",
        THEN conjunct2, THEN conjunct2, THEN conjunct1] b b' by blast
  moreover have "toLowerCase (unicodeLower ?h) (''.'' @ [CHR 0xC3, CHR 0x84, CHR ''B''])
          = [CHR ''.'', CHR 0xC3, CHR 0xA4, CHR ''b'']"
    by (simp add: toLowerCase_def example_host_def example_unicode_def is_ascii_def
        lower_ascii_def)
  ultimately have 6: "style_lang ?h (Some ?b) = [CHR ''.'', CHR 0xC3, CHR 0xA4, CHR ''b'']"
    by simp
  have 7: "isSSR JSUndefined = Inr False"
    by simp
  have r: "transformWithVite ?h
            \<lparr>tw_value = ''a{}'', tw_lang = style_lang ?h (Some ?a), tw_id = ''/proj/src/A.astro'',
             tw_ssr = False\<rparr> = Inl (JSString ''boom'')"
    by (simp add: example_host_def)
  have 8: "preprocessStyle ?h ''/proj/src/A.astro'' JSUndefined ''a{}'' (Some ?a)
             = Inl (Thrown (JSString ''boom''))"
    using t [THEN conjunct2, THEN conjunct2, THEN conjunct2, THEN conjunct2, THEN conjunct2,
        THEN conjunct2, THEN conjunct1] 7 r by blast
  show ?thesis
    using 1 2 asc 4 5 6 7 8 by (intro conjI)
qed

text \<open>
  C8 as stated fails on a \<^verbatim>\<open>lang\<close> that is present and empty: the token is not derived
  from it (which would give the lone dot) but is the default \<^verbatim>\<open>.css\<close>.
\<close>

theorem style_lang_empty_counterexample:
  "[''lang'' \<mapsto> []] ''lang'' = Some []
   \<and> toLowerCase
        (unicodeLower
           (example_host (Inr ''x'') (Inr example_output) (Inr example_output) (Inr JSNull)))
        (''.'' @ []) = ''.''
   \<and> style_lang (example_host (Inr ''x'') (Inr example_output) (Inr example_output) (Inr JSNull))
        (Some [''lang'' \<mapsto> []]) = ''.css''"
proof -
  let ?h = "example_host (Inr ''x'') (Inr example_output) (Inr example_output) (Inr JSNull)"
  have 1: "[''lang'' \<mapsto> []] ''lang'' = Some []"
    by simp
  have "\<forall>c\<in>set ''.''. is_ascii c"
    by (simp add: is_ascii_def)
  then have "toLowerCase (unicodeLower ?h) ''.'' = map lower_ascii ''.''"
    by (rule toLowerCase_ascii)
  then have 2: "toLowerCase (unicodeLower ?h) (''.'' @ []) = ''.''"
    by (simp add: lower_ascii_dot)
  have 3: "style_lang ?h (Some [''lang'' \<mapsto> []]) = ''.css''"
    by (rule style_lang_default) simp
  show ?thesis
    using 1 2 3 by (intro conjI)
qed

text \<open>
  C9, amended. Let a value be thrown inside the \<^verbatim>\<open>try\<close> block. If its \<^verbatim>\<open>stack\<close> cannot
  be read (the value is \<^verbatim>\<open>null\<close> or \<^verbatim>\<open>undefined\<close>) or has no \<^verbatim>\<open>includes\<close> method,
  being neither a string nor an array nor an object with a function as \<^verbatim>\<open>includes\<close>, the
  handler raises a \<^verbatim>\<open>TypeError\<close>, and \<^verbatim>\<open>load\<close> throws it instead of the value. If its
  \<^verbatim>\<open>stack\<close> is an array that does not hold the string \<^verbatim>\<open>wasm-function\<close>,
  \<^verbatim>\<open>Array.prototype.includes\<close> answers the call, no \<^verbatim>\<open>TypeError\<close> is raised and
  \<^verbatim>\<open>load\<close> throws the value unchanged.
\<close>

theorem load_stack_without_includes:
  assumes "endsWith file_id ''.astro''"
    and "isPage h config file_id = Inr b"
    and "readFile h file_id = Inr source"
    and "thrown_in_try h config file_id opts b source err"
  shows "(\<not> stack_has_includes err
            \<longrightarrow> snd (load h config file_id opts) = Inl TypeError
                \<and> snd (load h config file_id opts) \<noteq> Inl (Thrown err))
       \<and> (get_prop err ''stack'' = Inr (JSArray xs) \<and> JSString ''wasm-function'' \<notin> set xs
            \<longrightarrow> snd (load h config file_id opts) = Inl (Thrown err))"
proof -
  have thrown: "snd (load h config file_id opts) = Inl (catch_handler h config file_id source err)"
    using assms by (rule load_thrown_in_try)
  have 1: "\<not> stack_has_includes err
            \<longrightarrow> snd (load h config file_id opts) = Inl TypeError
                \<and> snd (load h config file_id opts) \<noteq> Inl (Thrown err)"
    using thrown catch_handler_no_includes [of err h config file_id source] by simp
  have 2: "get_prop err ''stack'' = Inr (JSArray xs) \<and> JSString ''wasm-function'' \<notin> set xs
            \<longrightarrow> snd (load h config file_id opts) = Inl (Thrown err)"
    using thrown catch_handler_array [of err xs h config file_id source] by simp
  show ?thesis
    using 1 2 by (rule conjI)
qed

text \<open>The hypotheses hold when the compiler throws the string \<^verbatim>\<open>boom\<close>.\<close>

theorem load_stack_without_includes_witness:
  "endsWith ''/proj/src/pages/index.astro'' ''.astro''
   \<and> isPage (example_host (Inr ''<h1>Hi</h1>'') (Inl (JSString ''boom'')) (Inr example_output)
        (Inr JSNull)) example_config ''/proj/src/pages/index.astro'' = Inr True
   \<and> readFile (example_host (Inr ''<h1>Hi</h1>'') (Inl (JSString ''boom'')) (Inr example_output)
        (Inr JSNull)) ''/proj/src/pages/index.astro'' = Inr ''<h1>Hi</h1>''
   \<and> thrown_in_try (example_host (Inr ''<h1>Hi</h1>'') (Inl (JSString ''boom''))
        (Inr example_output) (Inr JSNull)) example_config ''/proj/src/pages/index.astro''
        JSUndefined True ''<h1>Hi</h1>'' (JSString ''boom'')
   \<and> \<not> stack_has_includes (JSString ''boom'')
   \<and> snd (load (example_host (Inr ''<h1>Hi</h1>'') (Inl (JSString ''boom'')) (Inr example_output)
        (Inr JSNull)) example_config ''/proj/src/pages/index.astro'' JSUndefined) = Inl TypeError"
proof -
  let ?h = "example_host (Inr ''<h1>Hi</h1>'') (Inl (JSString ''boom'')) (Inr example_output)
        (Inr JSNull)"
  let ?f = "''/proj/src/pages/index.astro''"
  have 1: "endsWith ?f ''.astro''"
    by (simp add: endsWith_def)
  have 2: "isPage ?h example_config ?f = Inr True"
    by (rule example_isPage)
  have 3: "readFile ?h ?f = Inr ''<h1>Hi</h1>''"
    by (simp add: example_host_def)
  have 4: "thrown_in_try ?h example_config ?f JSUndefined True ''<h1>Hi</h1>'' (JSString ''boom'')"
    by (simp add: thrown_in_try_def example_host_def)
  have 5: "\<not> stack_has_includes (JSString ''boom'')"
    by (simp add: stack_has_includes_def)
  have 6: "snd (load ?h example_config ?f JSUndefined) = Inl TypeError"
    using load_stack_without_includes [OF 1 2 3 4, THEN conjunct1] 5 by blast
  show ?thesis
    using 1 2 3 4 5 6 by (intro conjI)
qed

text \<open>
  C9 as stated fails on a stack that is an array: it is not a string, yet
  \<^verbatim>\<open>Array.prototype.includes\<close> answers the call, no \<^verbatim>\<open>TypeError\<close> is raised and the
  value that was thrown leaves \<^verbatim>\<open>load\<close> unchanged.
\<close>

theorem load_array_stack_counterexample:
  "get_prop array_stack_error ''stack'' = Inr (JSArray [])
   \<and> typeof (JSArray []) \<noteq> ''string''
   \<and> snd (load (example_host (Inr ''<h1>Hi</h1>'') (Inl array_stack_error) (Inr example_output)
        (Inr JSNull)) example_config ''/proj/src/pages/index.astro'' JSUndefined)
       = Inl (Thrown array_stack_error)"
proof -
  let ?h = "example_host (Inr ''<h1>Hi</h1>'') (Inl array_stack_error) (Inr example_output)
        (Inr JSNull)"
  let ?f = "''/proj/src/pages/index.astro''"
  have 1: "endsWith ?f ''.astro''"
    by (simp add: endsWith_def)
  have 3: "readFile ?h ?f = Inr ''<h1>Hi</h1>''"
    by (simp add: example_host_def)
  have 4: "thrown_in_try ?h example_config ?f JSUndefined True ''<h1>Hi</h1>'' array_stack_error"
    by (simp add: thrown_in_try_def example_host_def)
  have 5: "catch_handler ?h example_config ?f ''<h1>Hi</h1>'' array_stack_error
             = Thrown array_stack_error"
    by (simp add: catch_handler_def array_stack_error_def)
  have 6: "snd (load ?h example_config ?f JSUndefined) = Inl (Thrown array_stack_error)"
    using load_thrown_in_try [OF 1 example_isPage 3 4] 5 by simp
  have 7: "get_prop array_stack_error ''stack'' = Inr (JSArray [])"
    by (simp add: array_stack_error_def)
  have 8: "typeof (JSArray []) \<noteq> ''string''"
    by simp
  show ?thesis
    using 7 8 6 by (intro conjI)
qed

text \<open>
  C10. The token is \<^verbatim>\<open>.css\<close> when \<^verbatim>\<open>attrs\<close> is nullish, when it has no \<^verbatim>\<open>lang\<close> and when
  its \<^verbatim>\<open>lang\<close> is the empty string; it is never the lone dot.
\<close>

theorem style_lang_falsy:
  "(attrs = None \<or> (\<exists>a. attrs = Some a \<and> (a ''lang'' = None \<or> a ''lang'' = Some []))
      \<longrightarrow> style_lang h attrs = ''.css'')
   \<and> style_lang h attrs \<noteq> ''.''"
proof
  show "attrs = None \<or> (\<exists>a. attrs = Some a \<and> (a ''lang'' = None \<or> a ''lang'' = Some []))
      \<longrightarrow> style_lang h attrs = ''.css''"
    using style_lang_default by blast
  show "style_lang h attrs \<noteq> ''.''"
    using style_lang_dot [of h attrs] by auto
qed

theorem style_lang_falsy_witness:
  "[''lang'' \<mapsto> []] ''lang'' = Some []
   \<and> style_lang (example_host (Inr ''x'') (Inr example_output) (Inr example_output) (Inr JSNull))
        (Some [''lang'' \<mapsto> []]) = ''.css''
   \<and> style_lang (example_host (Inr ''x'') (Inr example_output) (Inr example_output) (Inr JSNull))
        (Some [''lang'' \<mapsto> []]) \<noteq> ''.''"
proof -
  let ?h = "example_host (Inr ''x'') (Inr example_output) (Inr example_output) (Inr JSNull)"
  have 1: "[''lang'' \<mapsto> []] ''lang'' = Some []"
    by simp
  note t = style_lang_falsy [of "Some [''lang'' \<mapsto> []]" ?h]
  have 2: "style_lang ?h (Some [''lang'' \<mapsto> []]) = ''.css''"
    using t [THEN conjunct1] 1 by blast
  have 3: "style_lang ?h (Some [''lang'' \<mapsto> []]) \<noteq> ''.''"
    using t by (rule conjunct2)
  show ?thesis
    using 1 2 3 by (intro conjI)
qed

end
